theory Spec2Isabelle
  imports Main "HOL-Library.Sublist"
begin

section \<open>The reply tool of \<^verbatim>\<open>skills/twitter/reply_tweet.py\<close>\<close>

text \<open>
  The module defines the input schema \<^verbatim>\<open>TwitterReplyTweetInput\<close> and the tool
  \<^verbatim>\<open>TwitterReplyTweet\<close> with the methods \<^verbatim>\<open>_run\<close> and \<^verbatim>\<open>_arun\<close>. The tool talks to
  three collaborators through its base class: the authentication provider
  (\<^verbatim>\<open>self.twitter\<close>), the rate limiter (\<^verbatim>\<open>self.check_rate_limit\<close>) and the platform
  client (\<^verbatim>\<open>client.create_tweet\<close>). The base class is not part of the source, so the
  collaborators are parameters of the model: every theorem holds for all of them.

  Python strings are written as HOL strings, one \<^typ>\<open>char\<close> for each code point, so that
  \<^const>\<open>length\<close> is what Python's \<^verbatim>\<open>len\<close> counts. An identifier of Isabelle cannot
  begin with an underscore: \<^verbatim>\<open>_run\<close> is \<open>run\<close> and \<^verbatim>\<open>_arun\<close> is \<open>arun\<close> below.
\<close>

subsection \<open>Exceptions\<close>

text \<open>
  The handler of \<^verbatim>\<open>_run\<close> is \<^verbatim>\<open>except Exception as e\<close>. It matches the instances of
  \<^verbatim>\<open>Exception\<close> (\<open>Ordinary\<close>: \<^verbatim>\<open>TypeError\<close>, \<^verbatim>\<open>KeyError\<close>, the errors of the HTTP
  client, timeouts) and lets through what derives from \<^verbatim>\<open>BaseException\<close> only
  (\<open>SystemExiting\<close>: \<^verbatim>\<open>KeyboardInterrupt\<close>, \<^verbatim>\<open>SystemExit\<close>, \<^verbatim>\<open>GeneratorExit\<close>).
  \<open>message\<close> is the text \<^verbatim>\<open>str(e)\<close>.
\<close>

datatype exn_kind = Ordinary | SystemExiting

datatype exn = Raised (kind: exn_kind) (message: string)

subsection \<open>Responses of the platform\<close>

text \<open>
  The code inspects the response two levels deep: \<^verbatim>\<open>response["data"]["id"]\<close>. A response
  is a scalar or a dictionary with string keys, the value under a key of the response is
  again a scalar or a dictionary, and the values of that inner dictionary are scalars.
  Dictionaries are association lists read with \<^const>\<open>map_of\<close>.
\<close>

datatype scalar = PNone | PBool bool | PInt int | PStr string

datatype data_value = DScalar scalar | DDict "(string \<times> scalar) list"

datatype response = RScalar scalar | RDict "(string \<times> data_value) list"

fun type_name :: "scalar \<Rightarrow> string" where
  "type_name PNone = ''NoneType''"
| "type_name (PBool _) = ''bool''"
| "type_name (PInt _) = ''int''"
| "type_name (PStr _) = ''str''"

text \<open>A word between apostrophes, as Python's messages quote type names and keys.\<close>

definition quoted :: "string \<Rightarrow> string" where
  "quoted s = [CHR 0x27] @ s @ [CHR 0x27]"

text \<open>Decimal digits of a number, for \<^verbatim>\<open>str\<close> of an \<^verbatim>\<open>int\<close>.\<close>

function str_of_nat :: "nat \<Rightarrow> string" where
  "str_of_nat n =
     (if n < 10 then [char_of (48 + n)]
      else str_of_nat (n div 10) @ [char_of (48 + n mod 10)])"
  by pat_completeness auto
termination
  by (relation "measure (\<lambda>n. n)") auto

declare str_of_nat.simps [simp del]

definition str_of_int :: "int \<Rightarrow> string" where
  "str_of_int i = (if i < 0 then ''-'' @ str_of_nat (nat (- i)) else str_of_nat (nat i))"

text \<open>\<^verbatim>\<open>str(v)\<close>, which is what an f-string substitutes for \<^verbatim>\<open>{v}\<close>.\<close>

fun py_str :: "scalar \<Rightarrow> string" where
  "py_str PNone = ''None''"
| "py_str (PBool b) = (if b then ''True'' else ''False'')"
| "py_str (PInt i) = str_of_int i"
| "py_str (PStr s) = s"

text \<open>
  \<^verbatim>\<open>k in v\<close> for a string \<open>k\<close>: a substring test on a string, a \<^verbatim>\<open>TypeError\<close> on
  \<^verbatim>\<open>None\<close>, a \<^verbatim>\<open>bool\<close> or an \<^verbatim>\<open>int\<close> (messages as CPython 3.12 words them).
\<close>

fun scalar_contains :: "string \<Rightarrow> scalar \<Rightarrow> exn + bool" where
  "scalar_contains k (PStr s) = Inr (sublist k s)"
| "scalar_contains k v =
     Inl (Raised Ordinary (''argument of type '' @ quoted (type_name v) @ '' is not iterable''))"

text \<open>\<^verbatim>\<open>v[k]\<close> for a string \<open>k\<close> on a scalar always raises \<^verbatim>\<open>TypeError\<close>.\<close>

fun scalar_getitem_error :: "scalar \<Rightarrow> exn" where
  "scalar_getitem_error (PStr s) =
     Raised Ordinary (''string indices must be integers, not '' @ quoted ''str'')"
| "scalar_getitem_error v =
     Raised Ordinary (quoted (type_name v) @ '' object is not subscriptable'')"

text \<open>\<^verbatim>\<open>str(KeyError(k))\<close> is the \<^verbatim>\<open>repr\<close> of the key; the keys used are plain words.\<close>

definition key_error :: "string \<Rightarrow> exn" where
  "key_error k = Raised Ordinary (quoted k)"

fun response_contains :: "string \<Rightarrow> response \<Rightarrow> exn + bool" where
  "response_contains k (RDict kvs) = Inr (k \<in> set (map fst kvs))"
| "response_contains k (RScalar v) = scalar_contains k v"

fun response_getitem :: "response \<Rightarrow> string \<Rightarrow> exn + data_value" where
  "response_getitem (RDict kvs) k =
     (case map_of kvs k of None \<Rightarrow> Inl (key_error k) | Some v \<Rightarrow> Inr v)"
| "response_getitem (RScalar v) k = Inl (scalar_getitem_error v)"

fun data_contains :: "string \<Rightarrow> data_value \<Rightarrow> exn + bool" where
  "data_contains k (DDict kvs) = Inr (k \<in> set (map fst kvs))"
| "data_contains k (DScalar v) = scalar_contains k v"

fun data_getitem :: "data_value \<Rightarrow> string \<Rightarrow> exn + scalar" where
  "data_getitem (DDict kvs) k =
     (case map_of kvs k of None \<Rightarrow> Inl (key_error k) | Some v \<Rightarrow> Inr v)"
| "data_getitem (DScalar v) k = Inl (scalar_getitem_error v)"

subsection \<open>The input schema (lines 8 to 12)\<close>

text \<open>
  \<^verbatim>\<open>TwitterReplyTweetInput\<close> declares two required string fields, \<^verbatim>\<open>tweet_id\<close> with no
  constraint and \<^verbatim>\<open>text\<close> with \<^verbatim>\<open>max_length=280\<close> (the fields \<open>input_tweet_id\<close> and
  \<open>input_text\<close> of the record). Constructing it from keyword
  arguments (\<open>None\<close> for an argument that is not given) either yields the validated
  fields or fails with a \<^verbatim>\<open>ValidationError\<close> that lists every offending field.
\<close>

record reply_input =
  input_tweet_id :: string
  input_text :: string

datatype field_error = Missing string | StringTooLong string nat

datatype validation_error = ValidationError "field_error list"

definition TwitterReplyTweetInput ::
  "string option \<Rightarrow> string option \<Rightarrow> validation_error + reply_input" where
  "TwitterReplyTweetInput tweet_id_arg text_arg =
     (let errors =
            (case tweet_id_arg of None \<Rightarrow> [Missing ''tweet_id''] | Some _ \<Rightarrow> []) @
            (case text_arg of
               None \<Rightarrow> [Missing ''text'']
             | Some t \<Rightarrow> if length t > 280 then [StringTooLong ''text'' 280] else [])
      in case (tweet_id_arg, text_arg, errors) of
           (Some i, Some t, []) \<Rightarrow> Inr \<lparr>input_tweet_id = i, input_text = t\<rparr>
         | _ \<Rightarrow> Inl (ValidationError errors))"

subsection \<open>The tool, its collaborators and the state of a call\<close>

record tool =
  name :: string
  description :: string
  args_schema :: string

definition TwitterReplyTweet :: tool where
  "TwitterReplyTweet =
     \<lparr>name = ''twitter_reply_tweet'',
      description = ''Reply to an existing tweet on Twitter'',
      args_schema = ''TwitterReplyTweetInput''\<rparr>"

text \<open>
  The collaborators act on a world \<open>'w\<close> that the tool does not own (credentials, the
  limiter's counters and window, the platform). Each of them may raise and may change the
  world. \<open>'c\<close> is the type of client handles; \<^verbatim>\<open>get_client\<close> returning \<open>None\<close> stands for
  any falsy result.

  Modelled from the spec: \<^verbatim>\<open>_get_error_with_username\<close> is a helper of the base class that
  is not in the source. The spec says of it that the error string carries the acting
  user's identity where available; it is taken as a function of the world and the message
  that returns a string.
\<close>

record ('w, 'c) collaborators =
  use_key :: "'w \<Rightarrow> (exn + bool) \<times> 'w"
  check_rate_limit :: "int \<Rightarrow> int \<Rightarrow> 'w \<Rightarrow> (exn + bool \<times> string) \<times> 'w"
  get_client :: "'w \<Rightarrow> (exn + 'c option) \<times> 'w"
  create_tweet :: "'c \<Rightarrow> string \<Rightarrow> bool \<Rightarrow> string \<Rightarrow> 'w \<Rightarrow> (exn + response) \<times> 'w"
  get_error_with_username :: "'w \<Rightarrow> string \<Rightarrow> string"

text \<open>
  What a call does to the outside is recorded as a trace of events, one for each use of a
  collaborator, in program order. \<open>CreateTweet c text user_auth in_reply_to\<close> is the
  outbound network request.
\<close>

datatype 'c event =
    ReadUseKey
  | CheckRateLimit int int
  | GetClient
  | CreateTweet 'c string bool string

record ('w, 'c) state =
  self :: tool
  world :: 'w
  trace :: "'c event list"

definition call ::
  "'c event \<Rightarrow> ('w \<Rightarrow> 'r \<times> 'w) \<Rightarrow> ('w, 'c) state \<Rightarrow> 'r \<times> ('w, 'c) state" where
  "call ev f s =
     (case f (world s) of (r, w') \<Rightarrow> (r, s\<lparr>world := w', trace := trace s @ [ev]\<rparr>))"

subsection \<open>\<^verbatim>\<open>_run\<close> (lines 30 to 71)\<close>

text \<open>
  Lines 65 to 68: the test \<^verbatim>\<open>"data" in response and "id" in response["data"]\<close>
  evaluates from left to right and stops at the first false operand; every step may raise.
\<close>

definition interpret_response ::
  "('w, 'c) collaborators \<Rightarrow> 'w \<Rightarrow> response \<Rightarrow> exn + string" where
  "interpret_response env w response =
     (case response_contains ''data'' response of
        Inl e \<Rightarrow> Inl e
      | Inr has_data \<Rightarrow>
          (case (if has_data
                 then (case response_getitem response ''data'' of
                         Inl e \<Rightarrow> Inl e
                       | Inr d \<Rightarrow> data_contains ''id'' d)
                 else Inr False) of
             Inl e \<Rightarrow> Inl e
           | Inr has_id \<Rightarrow>
               if has_id
               then (case response_getitem response ''data'' of
                       Inl e \<Rightarrow> Inl e
                     | Inr d \<Rightarrow>
                         (case data_getitem d ''id'' of
                            Inl e \<Rightarrow> Inl e
                          | Inr reply_id \<Rightarrow>
                              Inr (''Reply posted successfully! Reply Tweet ID: '' @
                                   py_str reply_id)))
               else Inr (get_error_with_username env w ''Failed to post reply tweet.'')))"

text \<open>
  Lines 54 to 68: obtain the client, post the reply, interpret the response. The
  arguments of \<^verbatim>\<open>create_tweet\<close> are evaluated before the call, so the flag
  \<^verbatim>\<open>self.twitter.use_key\<close> is read a second time. A client handle is taken to have the
  method \<^verbatim>\<open>create_tweet\<close>; whatever the method raises is a result of the collaborator.
\<close>

definition post_reply ::
  "('w, 'c) collaborators \<Rightarrow> string \<Rightarrow> string \<Rightarrow> ('w, 'c) state \<Rightarrow>
   (exn + string) \<times> ('w, 'c) state" where
  "post_reply env tweet_id text s =
     (case call GetClient (get_client env) s of
        (Inl e, s1) \<Rightarrow> (Inl e, s1)
      | (Inr None, s1) \<Rightarrow>
          (Inr (get_error_with_username env (world s1)
                  ''Failed to get Twitter client. Please check your authentication.''), s1)
      | (Inr (Some client), s1) \<Rightarrow>
          (case call ReadUseKey (use_key env) s1 of
             (Inl e, s2) \<Rightarrow> (Inl e, s2)
           | (Inr user_auth, s2) \<Rightarrow>
               (case call (CreateTweet client text user_auth tweet_id)
                          (create_tweet env client text user_auth tweet_id) s2 of
                  (Inl e, s3) \<Rightarrow> (Inl e, s3)
                | (Inr response, s3) \<Rightarrow> (interpret_response env (world s3) response, s3))))"

text \<open>
  Lines 45 to 52: the rate-limit branch. \<open>Inr (Some msg)\<close> is the early \<^verbatim>\<open>return\<close> of
  line 50, \<open>Inr None\<close> means that execution goes on at line 54.
\<close>

definition rate_limit_branch ::
  "('w, 'c) collaborators \<Rightarrow> ('w, 'c) state \<Rightarrow> (exn + string option) \<times> ('w, 'c) state" where
  "rate_limit_branch env s =
     (case call ReadUseKey (use_key env) s of
        (Inl e, s1) \<Rightarrow> (Inl e, s1)
      | (Inr uk, s1) \<Rightarrow>
          if \<not> uk
          then (case call (CheckRateLimit 48 1440) (check_rate_limit env 48 1440) s1 of
                  (Inl e, s2) \<Rightarrow> (Inl e, s2)
                | (Inr (is_rate_limited, error), s2) \<Rightarrow>
                    if is_rate_limited
                    then (Inr (Some (get_error_with_username env (world s2)
                                       (''Error replying to tweet: '' @ error))), s2)
                    else (Inr None, s2))
          else (Inr None, s1))"

text \<open>Lines 44 to 68: the body of the \<^verbatim>\<open>try\<close> block.\<close>

definition run_body ::
  "('w, 'c) collaborators \<Rightarrow> string \<Rightarrow> string \<Rightarrow> ('w, 'c) state \<Rightarrow>
   (exn + string) \<times> ('w, 'c) state" where
  "run_body env tweet_id text s =
     (case rate_limit_branch env s of
        (Inl e, s1) \<Rightarrow> (Inl e, s1)
      | (Inr (Some msg), s1) \<Rightarrow> (Inr msg, s1)
      | (Inr None, s1) \<Rightarrow> post_reply env tweet_id text s1)"

text \<open>
  Lines 43, 70 and 71: the \<^verbatim>\<open>try\<close> statement. An exception of class \<^verbatim>\<open>Exception\<close> becomes
  an error string; any other exception leaves \<^verbatim>\<open>_run\<close> (\<open>Inl\<close>).
\<close>

definition run ::
  "('w, 'c) collaborators \<Rightarrow> string \<Rightarrow> string \<Rightarrow> ('w, 'c) state \<Rightarrow>
   (exn + string) \<times> ('w, 'c) state" where
  "run env tweet_id text s =
     (case run_body env tweet_id text s of
        (Inl e, s1) \<Rightarrow>
          (case kind e of
             Ordinary \<Rightarrow>
               (Inr (get_error_with_username env (world s1)
                       (''Error posting reply tweet: '' @ message e)), s1)
           | SystemExiting \<Rightarrow> (Inl e, s1))
      | (Inr r, s1) \<Rightarrow> (Inr r, s1))"

text \<open>
  Lines 70 and 71 taken alone: what the \<^verbatim>\<open>try\<close> statement makes of an outcome of its body.
  \<open>run\<close> is this handler applied to \<open>run_body\<close> (lemma \<open>run_handles_body\<close> below).
\<close>

definition handle_exception ::
  "('w, 'c) collaborators \<Rightarrow> (exn + string) \<times> ('w, 'c) state \<Rightarrow>
   (exn + string) \<times> ('w, 'c) state" where
  "handle_exception env outcome =
     (case outcome of
        (Inl e, s1) \<Rightarrow>
          (case kind e of
             Ordinary \<Rightarrow>
               (Inr (get_error_with_username env (world s1)
                       (''Error posting reply tweet: '' @ message e)), s1)
           | SystemExiting \<Rightarrow> (Inl e, s1))
      | (Inr r, s1) \<Rightarrow> (Inr r, s1))"

subsection \<open>\<^verbatim>\<open>_arun\<close> (lines 73 to 78)\<close>

definition arun ::
  "('w, 'c) collaborators \<Rightarrow> string \<Rightarrow> string \<Rightarrow> ('w, 'c) state \<Rightarrow>
   (exn + string) \<times> ('w, 'c) state" where
  "arun env tweet_id text s = run env tweet_id text s"

subsection \<open>Invocation through the schema\<close>

text \<open>
  Modelled from the spec: the framework that calls the tool is not in the source. The spec
  says that the input is validated against the schema before execution and that an input
  that violates it fails with a \<^verbatim>\<open>ValidationError\<close> before the operation runs. \<open>invoke\<close>
  constructs \<^verbatim>\<open>TwitterReplyTweetInput\<close> from the arguments and passes the validated
  fields to \<^verbatim>\<open>_run\<close>; a rejected input leaves the state as it was.
\<close>

definition invoke ::
  "('w, 'c) collaborators \<Rightarrow> string option \<Rightarrow> string option \<Rightarrow> ('w, 'c) state \<Rightarrow>
   (validation_error + (exn + string)) \<times> ('w, 'c) state" where
  "invoke env tweet_id_arg text_arg s =
     (case TwitterReplyTweetInput tweet_id_arg text_arg of
        Inl ve \<Rightarrow> (Inl ve, s)
      | Inr inp \<Rightarrow>
          (case run env (input_tweet_id inp) (input_text inp) s of
             (r, s1) \<Rightarrow> (Inr r, s1)))"

subsection \<open>Reading a trace\<close>

text \<open>The events that a call added to the trace of the state it started from.\<close>

definition new_events :: "('w, 'c) state \<Rightarrow> ('w, 'c) state \<Rightarrow> 'c event list" where
  "new_events s s1 = drop (length (trace s)) (trace s1)"

fun is_request :: "'c event \<Rightarrow> bool" where
  "is_request (CreateTweet _ _ _ _) = True"
| "is_request _ = False"

fun is_rate_limit_check :: "'c event \<Rightarrow> bool" where
  "is_rate_limit_check (CheckRateLimit _ _) = True"
| "is_rate_limit_check _ = False"

subsection \<open>Example collaborators\<close>

text \<open>
  Concrete collaborators on which the theorems are instantiated. The world is the number
  of requests that the limiter has counted in the current window; the limiter refuses
  from \<open>max_requests\<close> on and counts an accepted request. The client handle is a number.
  The error helper puts the user name \<open>alice\<close> before the message.
\<close>

definition example_limiter :: "int \<Rightarrow> int \<Rightarrow> nat \<Rightarrow> (exn + bool \<times> string) \<times> nat" where
  "example_limiter max_requests interval n =
     (if max_requests \<le> int n then (Inr (True, ''Rate limit exceeded''), n)
      else (Inr (False, []), Suc n))"

definition example_error_with_username :: "nat \<Rightarrow> string \<Rightarrow> string" where
  "example_error_with_username n msg = ''@alice: '' @ msg"

definition example_env ::
  "bool \<Rightarrow> (exn + nat option) \<Rightarrow> (exn + response) \<Rightarrow> (nat, nat) collaborators" where
  "example_env key client_result platform_result =
     \<lparr>use_key = (\<lambda>n. (Inr key, n)),
      check_rate_limit = example_limiter,
      get_client = (\<lambda>n. (client_result, n)),
      create_tweet = (\<lambda>c t user_auth i n. (platform_result, n)),
      get_error_with_username = example_error_with_username\<rparr>"

definition start :: "nat \<Rightarrow> (nat, nat) state" where
  "start n = \<lparr>self = TwitterReplyTweet, world = n, trace = []\<rparr>"

definition posted_123 :: response where
  "posted_123 = RDict [(''data'', DDict [(''id'', PStr ''123''), (''text'', PStr ''hi'')])]"

definition null_data :: response where
  "null_data = RDict [(''data'', DScalar PNone)]"

text \<open>
  \<^verbatim>\<open>KeyboardInterrupt()\<close>, whose \<^verbatim>\<open>str\<close> is empty, and collaborators whose limiter raises a
  given exception instead of answering.
\<close>

definition keyboard_interrupt :: exn where
  "keyboard_interrupt = Raised SystemExiting []"

definition failing_limiter_env :: "exn \<Rightarrow> (nat, nat) collaborators" where
  "failing_limiter_env e =
     (example_env False (Inr (Some 7)) (Inr posted_123))
       \<lparr>check_rate_limit := (\<lambda>max_requests interval n. (Inl e, n))\<rparr>"

section \<open>Properties\<close>

subsection \<open>What the steps do to the state\<close>

lemma call_result:
  "f (world s) = (r, w1) \<Longrightarrow> call ev f s = (r, s\<lparr>world := w1, trace := trace s @ [ev]\<rparr>)"
  by (simp add: call_def)

lemma call_cases:
  "call ev f s = (r, s1) \<Longrightarrow>
   f (world s) = (r, world s1) \<and> self s1 = self s \<and> trace s1 = trace s @ [ev]"
  by (auto simp: call_def split: prod.splits)

lemma new_events_append: "trace s1 = trace s @ evs \<Longrightarrow> new_events s s1 = evs"
  by (simp add: new_events_def)

lemma rate_limit_branch_effect:
  assumes "rate_limit_branch env s = (r, s1)"
  shows "self s1 = self s \<and>
         (\<exists>evs. trace s1 = trace s @ evs \<and> set evs \<subseteq> {ReadUseKey, CheckRateLimit 48 1440})"
  using assms unfolding rate_limit_branch_def
  by (auto split: prod.splits sum.splits if_splits dest!: call_cases)

lemma post_reply_effect:
  assumes "post_reply env tweet_id text s = (r, s1)"
  shows "self s1 = self s \<and>
         (\<exists>evs. trace s1 = trace s @ evs \<and> length (filter is_request evs) \<le> 1 \<and>
                filter is_rate_limit_check evs = [])"
  using assms unfolding post_reply_def
  by (auto split: prod.splits sum.splits option.splits if_splits dest!: call_cases)

lemma run_state: "snd (run env tweet_id text s) = snd (run_body env tweet_id text s)"
  by (auto simp: run_def split: prod.splits sum.splits exn_kind.splits)

lemma interpret_response_ignores_limiter:
  "interpret_response (env\<lparr>check_rate_limit := f\<rparr>) w response = interpret_response env w response"
  by (simp add: interpret_response_def cong: sum.case_cong if_cong)

lemma post_reply_ignores_limiter:
  "post_reply (env\<lparr>check_rate_limit := f\<rparr>) tweet_id text s = post_reply env tweet_id text s"
  by (simp add: post_reply_def interpret_response_ignores_limiter
      cong: prod.case_cong sum.case_cong option.case_cong)

lemma handle_exception_ignores_limiter:
  "handle_exception (env\<lparr>check_rate_limit := f\<rparr>) outcome = handle_exception env outcome"
  by (simp add: handle_exception_def cong: prod.case_cong sum.case_cong exn_kind.case_cong)

lemma run_handles_body:
  "run env tweet_id text s = handle_exception env (run_body env tweet_id text s)"
  by (simp add: run_def handle_exception_def)

subsection \<open>The asynchronous entry point\<close>

text \<open>
  C7. For every pair of inputs and every behaviour of the collaborators (and every state
  they start from), the asynchronous entry point \<^verbatim>\<open>_arun\<close> returns exactly what the
  synchronous entry point \<^verbatim>\<open>_run\<close> returns: the same string or the same exception, and
  the same final state.
\<close>

theorem arun_same_as_run: "arun env tweet_id text s = run env tweet_id text s"
  by (simp add: arun_def)

lemma rate_limit_branch_key:
  assumes "use_key env (world s) = (Inr True, w1)"
  shows "rate_limit_branch env s = (Inr None, s\<lparr>world := w1, trace := trace s @ [ReadUseKey]\<rparr>)"
  using assms by (simp add: rate_limit_branch_def call_def)

lemma rate_limit_branch_limited:
  assumes "use_key env (world s) = (Inr False, w1)"
    and "check_rate_limit env 48 1440 w1 = (Inr (True, error), w2)"
  shows "rate_limit_branch env s =
         (Inr (Some (get_error_with_username env w2 (''Error replying to tweet: '' @ error))),
          s\<lparr>world := w2, trace := trace s @ [ReadUseKey, CheckRateLimit 48 1440]\<rparr>)"
  using assms by (simp add: rate_limit_branch_def call_def)

lemma rate_limit_branch_events:
  assumes "fst (use_key env (world s)) = Inr uk"
  shows "new_events s (snd (rate_limit_branch env s)) =
         (if uk then [ReadUseKey] else [ReadUseKey, CheckRateLimit 48 1440])"
  using assms
  by (auto simp: rate_limit_branch_def call_def new_events_def split: prod.splits sum.splits)

lemma run_body_events:
  "\<exists>evs. new_events s (snd (run_body env tweet_id text s)) =
           new_events s (snd (rate_limit_branch env s)) @ evs \<and>
         length (filter is_request evs) \<le> 1 \<and> filter is_rate_limit_check evs = []"
proof (cases "rate_limit_branch env s")
  case (Pair r s1)
  from rate_limit_branch_effect [OF Pair] obtain evs0 where t1: "trace s1 = trace s @ evs0"
    by blast
  show ?thesis
  proof (cases "r = Inr None")
    case True
    obtain r2 s2 where p: "post_reply env tweet_id text s1 = (r2, s2)"
      by (cases "post_reply env tweet_id text s1")
    from post_reply_effect [OF p] obtain evs where
      t2: "trace s2 = trace s1 @ evs" and n: "length (filter is_request evs) \<le> 1"
      and c: "filter is_rate_limit_check evs = []"
      by blast
    have "run_body env tweet_id text s = (r2, s2)"
      using Pair True p by (simp add: run_body_def)
    then show ?thesis
      using Pair t1 t2 n c by (auto simp: new_events_def)
  next
    case False
    then have "snd (run_body env tweet_id text s) = s1"
      using Pair by (auto simp: run_body_def split: sum.splits option.splits)
    then show ?thesis
      using Pair by auto
  qed
qed

subsection \<open>The rate-limit check and the authentication mode\<close>

text \<open>
  C1. Whatever the state of the limiter and the volume of earlier calls, \<^verbatim>\<open>_run\<close> consults
  the rate limiter exactly when the authentication mode it reads (\<^verbatim>\<open>use_key\<close>) is not
  key-based. With key-based authentication the call performs no rate-limit check: no
  check is among its events, its outcome is that of the later steps started in the world
  the flag read left, and it is the same whatever the limiter would have done. Otherwise
  it performs exactly one check, with \<open>max_requests = 48\<close> and an interval of 1440 minutes,
  in the world the flag read left, and the call goes on from the limiter's verdict and
  the world the limiter left: an exception of the limiter goes to the handler, the verdict
  limited ends the call with the rate-limit error string, and only the verdict not limited
  lets the later steps run.
\<close>

theorem rate_limit_check_iff_not_key_based:
  assumes "use_key env (world s) = (Inr uk, w1)"
  shows "filter is_rate_limit_check (new_events s (snd (run env tweet_id text s))) =
           (if uk then [] else [CheckRateLimit 48 1440]) \<and>
         (CheckRateLimit 48 1440 \<in> set (new_events s (snd (run env tweet_id text s)))) = (\<not> uk) \<and>
         (uk \<longrightarrow>
            run (env\<lparr>check_rate_limit := f\<rparr>) tweet_id text s = run env tweet_id text s \<and>
            run env tweet_id text s =
              handle_exception env
                (post_reply env tweet_id text (s\<lparr>world := w1, trace := trace s @ [ReadUseKey]\<rparr>))) \<and>
         (\<not> uk \<longrightarrow>
            run env tweet_id text s =
              handle_exception env
                (case check_rate_limit env 48 1440 w1 of
                   (Inl e, w2) \<Rightarrow>
                     (Inl e, s\<lparr>world := w2,
                               trace := trace s @ [ReadUseKey, CheckRateLimit 48 1440]\<rparr>)
                 | (Inr (is_rate_limited, error), w2) \<Rightarrow>
                     if is_rate_limited
                     then (Inr (get_error_with_username env w2
                                  (''Error replying to tweet: '' @ error)),
                           s\<lparr>world := w2,
                             trace := trace s @ [ReadUseKey, CheckRateLimit 48 1440]\<rparr>)
                     else post_reply env tweet_id text
                            (s\<lparr>world := w2,
                               trace := trace s @ [ReadUseKey, CheckRateLimit 48 1440]\<rparr>)))"
proof -
  have flag: "fst (use_key env (world s)) = Inr uk"
    using assms by simp
  obtain evs where
    e: "new_events s (snd (run env tweet_id text s)) =
        new_events s (snd (rate_limit_branch env s)) @ evs"
    and c: "filter is_rate_limit_check evs = []"
    using run_body_events [of s env tweet_id "text"] unfolding run_state by blast
  have g: "new_events s (snd (rate_limit_branch env s)) =
           (if uk then [ReadUseKey] else [ReadUseKey, CheckRateLimit 48 1440])"
    by (rule rate_limit_branch_events [OF flag])
  have checks: "filter is_rate_limit_check (new_events s (snd (run env tweet_id text s))) =
                (if uk then [] else [CheckRateLimit 48 1440])"
    using e c g by simp
  have "CheckRateLimit 48 1440 \<notin> set evs"
    using c by (auto simp: filter_empty_conv)
  then have member:
    "(CheckRateLimit 48 1440 \<in> set (new_events s (snd (run env tweet_id text s)))) = (\<not> uk)"
    using e g by auto
  have independent: "run (env\<lparr>check_rate_limit := f\<rparr>) tweet_id text s = run env tweet_id text s"
    if uk
  proof -
    have "run_body (env\<lparr>check_rate_limit := f\<rparr>) tweet_id text s = run_body env tweet_id text s"
      using assms that
      by (simp add: run_body_def rate_limit_branch_def call_def post_reply_ignores_limiter)
    then show ?thesis
      by (simp add: run_handles_body handle_exception_ignores_limiter)
  qed
  have key: "run env tweet_id text s =
             handle_exception env
               (post_reply env tweet_id text (s\<lparr>world := w1, trace := trace s @ [ReadUseKey]\<rparr>))"
    if uk
    using assms that
    by (simp add: run_handles_body run_body_def rate_limit_branch_def call_def)
  have not_key:
    "run env tweet_id text s =
       handle_exception env
         (case check_rate_limit env 48 1440 w1 of
            (Inl e, w2) \<Rightarrow>
              (Inl e, s\<lparr>world := w2, trace := trace s @ [ReadUseKey, CheckRateLimit 48 1440]\<rparr>)
          | (Inr (is_rate_limited, error), w2) \<Rightarrow>
              if is_rate_limited
              then (Inr (get_error_with_username env w2 (''Error replying to tweet: '' @ error)),
                    s\<lparr>world := w2, trace := trace s @ [ReadUseKey, CheckRateLimit 48 1440]\<rparr>)
              else post_reply env tweet_id text
                     (s\<lparr>world := w2, trace := trace s @ [ReadUseKey, CheckRateLimit 48 1440]\<rparr>))"
    if "\<not> uk"
    using assms that
    by (simp add: run_handles_body run_body_def rate_limit_branch_def call_def
        split: prod.splits sum.splits)
  from checks member independent key not_key show ?thesis
    by blast
qed

theorem rate_limit_check_iff_not_key_based_witness:
  "use_key (example_env True (Inr (Some 7)) (Inr posted_123)) (world (start 100)) =
     (Inr True, 100) \<and>
   filter is_rate_limit_check
     (new_events (start 100)
        (snd (run (example_env True (Inr (Some 7)) (Inr posted_123)) ''1'' ''hi'' (start 100)))) = [] \<and>
   run ((example_env True (Inr (Some 7)) (Inr posted_123))
          \<lparr>check_rate_limit := check_rate_limit (failing_limiter_env keyboard_interrupt)\<rparr>)
       ''1'' ''hi'' (start 100) =
     run (example_env True (Inr (Some 7)) (Inr posted_123)) ''1'' ''hi'' (start 100) \<and>
   fst (run (example_env True (Inr (Some 7)) (Inr posted_123)) ''1'' ''hi'' (start 100)) =
     Inr ''Reply posted successfully! Reply Tweet ID: 123'' \<and>
   use_key (example_env False (Inr (Some 7)) (Inr posted_123)) (world (start 100)) =
     (Inr False, 100) \<and>
   filter is_rate_limit_check
     (new_events (start 100)
        (snd (run (example_env False (Inr (Some 7)) (Inr posted_123)) ''1'' ''hi'' (start 100)))) =
     [CheckRateLimit 48 1440] \<and>
   fst (run (example_env False (Inr (Some 7)) (Inr posted_123)) ''1'' ''hi'' (start 100)) =
     Inr ''@alice: Error replying to tweet: Rate limit exceeded''"
proof -
  let ?k = "example_env True (Inr (Some 7)) (Inr posted_123)"
  let ?n = "example_env False (Inr (Some 7)) (Inr posted_123)"
  let ?f = "check_rate_limit (failing_limiter_env keyboard_interrupt)"
  have k: "use_key ?k (world (start 100)) = (Inr True, 100)"
    and n: "use_key ?n (world (start 100)) = (Inr False, 100)"
    by (simp_all add: example_env_def start_def)
  note tk = rate_limit_check_iff_not_key_based [OF k, of "''1''" "''hi''" ?f]
  note tn = rate_limit_check_iff_not_key_based [OF n, of "''1''" "''hi''"]
  from tk have "filter is_rate_limit_check
                  (new_events (start 100) (snd (run ?k ''1'' ''hi'' (start 100)))) =
                (if True then [] else [CheckRateLimit 48 1440])"
    by (rule conjunct1)
  then have k1: "filter is_rate_limit_check
                   (new_events (start 100) (snd (run ?k ''1'' ''hi'' (start 100)))) = []"
    by simp
  from tk have k2: "run (?k\<lparr>check_rate_limit := ?f\<rparr>) ''1'' ''hi'' (start 100) =
                    run ?k ''1'' ''hi'' (start 100)"
    by blast
  from tk have "run ?k ''1'' ''hi'' (start 100) =
                handle_exception ?k
                  (post_reply ?k ''1'' ''hi''
                     ((start 100)\<lparr>world := 100, trace := trace (start 100) @ [ReadUseKey]\<rparr>))"
    by blast
  then have k3: "fst (run ?k ''1'' ''hi'' (start 100)) =
                 Inr ''Reply posted successfully! Reply Tweet ID: 123''"
    by (simp add: handle_exception_def post_reply_def call_def interpret_response_def
        example_env_def start_def posted_123_def)
  from tn have "filter is_rate_limit_check
                  (new_events (start 100) (snd (run ?n ''1'' ''hi'' (start 100)))) =
                (if False then [] else [CheckRateLimit 48 1440])"
    by (rule conjunct1)
  then have n1: "filter is_rate_limit_check
                   (new_events (start 100) (snd (run ?n ''1'' ''hi'' (start 100)))) =
                 [CheckRateLimit 48 1440]"
    by simp
  from tn have "run ?n ''1'' ''hi'' (start 100) =
                handle_exception ?n
                  (case check_rate_limit ?n 48 1440 100 of
                     (Inl e, w2) \<Rightarrow>
                       (Inl e, (start 100)\<lparr>world := w2,
                          trace := trace (start 100) @ [ReadUseKey, CheckRateLimit 48 1440]\<rparr>)
                   | (Inr (is_rate_limited, error), w2) \<Rightarrow>
                       if is_rate_limited
                       then (Inr (get_error_with_username ?n w2
                                    (''Error replying to tweet: '' @ error)),
                             (start 100)\<lparr>world := w2,
                                trace := trace (start 100) @ [ReadUseKey, CheckRateLimit 48 1440]\<rparr>)
                       else post_reply ?n ''1'' ''hi''
                              ((start 100)\<lparr>world := w2,
                                 trace := trace (start 100) @ [ReadUseKey, CheckRateLimit 48 1440]\<rparr>))"
    by blast
  then have n2: "fst (run ?n ''1'' ''hi'' (start 100)) =
                 Inr ''@alice: Error replying to tweet: Rate limit exceeded''"
    by (simp add: handle_exception_def example_env_def example_limiter_def
        example_error_with_username_def)
  from k n k1 k2 k3 n1 n2 show ?thesis
    by (simp only:)
qed

subsection \<open>The two early returns\<close>

lemma run_rate_limited:
  assumes "use_key env (world s) = (Inr False, w1)"
    and "check_rate_limit env 48 1440 w1 = (Inr (True, error), w2)"
  shows "run env tweet_id text s =
         (Inr (get_error_with_username env w2 (''Error replying to tweet: '' @ error)),
          s\<lparr>world := w2, trace := trace s @ [ReadUseKey, CheckRateLimit 48 1440]\<rparr>)"
  using rate_limit_branch_limited [OF assms] by (simp add: run_def run_body_def)

lemma post_reply_no_client:
  assumes "get_client env (world s1) = (Inr None, w2)"
  shows "post_reply env tweet_id text s1 =
         (Inr (get_error_with_username env w2
                 ''Failed to get Twitter client. Please check your authentication.''),
          s1\<lparr>world := w2, trace := trace s1 @ [GetClient]\<rparr>)"
  using assms by (simp add: post_reply_def call_def)

lemma run_no_client:
  assumes "rate_limit_branch env s = (Inr None, s1)"
    and "get_client env (world s1) = (Inr None, w2)"
  shows "run env tweet_id text s =
         (Inr (get_error_with_username env w2
                 ''Failed to get Twitter client. Please check your authentication.''),
          s1\<lparr>world := w2, trace := trace s1 @ [GetClient]\<rparr>)"
  using assms(1) post_reply_no_client [OF assms(2)] by (simp add: run_def run_body_def)

lemma sublist_of_embedded:
  assumes "sublist (pre @ x) y"
  shows "sublist x y"
proof -
  from assms obtain ps ss where "y = ps @ (pre @ x) @ ss"
    by (auto simp: sublist_def)
  then have "y = (ps @ pre) @ x @ ss"
    by simp
  then show ?thesis
    unfolding sublist_def by blast
qed

text \<open>
  C2. When the authentication mode is not key-based and the limiter (asked with 48
  requests per 1440 minutes) reports that the caller is limited, \<^verbatim>\<open>_run\<close> returns the
  error string that the helper builds from \<open>Error replying to tweet:\<close> followed by the
  limiter's message; it has then read the flag and asked the limiter and done nothing
  else: it obtains no client and sends no request. If the helper's output carries the
  caller's identity and the message it is given, the returned string carries the caller's
  identity and the limiter's message.
\<close>

theorem rate_limited_returns_error_without_client:
  assumes "use_key env (world s) = (Inr False, w1)"
    and "check_rate_limit env 48 1440 w1 = (Inr (True, error), w2)"
  shows "fst (run env tweet_id text s) =
           Inr (get_error_with_username env w2 (''Error replying to tweet: '' @ error)) \<and>
         new_events s (snd (run env tweet_id text s)) = [ReadUseKey, CheckRateLimit 48 1440] \<and>
         GetClient \<notin> set (new_events s (snd (run env tweet_id text s))) \<and>
         filter is_request (new_events s (snd (run env tweet_id text s))) = [] \<and>
         ((\<forall>m. sublist identity (get_error_with_username env w2 m) \<and>
               sublist m (get_error_with_username env w2 m)) \<longrightarrow>
          (\<exists>r. fst (run env tweet_id text s) = Inr r \<and> sublist identity r \<and> sublist error r))"
proof -
  let ?msg = "''Error replying to tweet: '' @ error"
  have r: "run env tweet_id text s =
           (Inr (get_error_with_username env w2 ?msg),
            s\<lparr>world := w2, trace := trace s @ [ReadUseKey, CheckRateLimit 48 1440]\<rparr>)"
    by (rule run_rate_limited [OF assms])
  have ev: "new_events s (snd (run env tweet_id text s)) = [ReadUseKey, CheckRateLimit 48 1440]"
    by (simp add: r new_events_def)
  have emb: "sublist identity (get_error_with_username env w2 ?msg) \<and>
             sublist error (get_error_with_username env w2 ?msg)"
    if h: "\<forall>m. sublist identity (get_error_with_username env w2 m) \<and>
               sublist m (get_error_with_username env w2 m)"
  proof -
    from h have "sublist ?msg (get_error_with_username env w2 ?msg)"
      by blast
    then have "sublist error (get_error_with_username env w2 ?msg)"
      by (rule sublist_of_embedded)
    with h show ?thesis
      by blast
  qed
  have res: "fst (run env tweet_id text s) = Inr (get_error_with_username env w2 ?msg)"
    by (simp add: r)
  have no_client: "GetClient \<notin> set (new_events s (snd (run env tweet_id text s)))"
    using ev by simp
  have no_request: "filter is_request (new_events s (snd (run env tweet_id text s))) = []"
    using ev by simp
  from res ev no_client no_request emb show ?thesis
    by blast
qed

theorem rate_limited_returns_error_without_client_witness:
  "fst (run (example_env False (Inr (Some 7)) (Inr posted_123)) ''1'' ''hi'' (start 48)) =
     Inr ''@alice: Error replying to tweet: Rate limit exceeded'' \<and>
   new_events (start 48)
     (snd (run (example_env False (Inr (Some 7)) (Inr posted_123)) ''1'' ''hi'' (start 48))) =
     [ReadUseKey, CheckRateLimit 48 1440] \<and>
   sublist ''alice'' ''@alice: Error replying to tweet: Rate limit exceeded'' \<and>
   sublist ''Rate limit exceeded'' ''@alice: Error replying to tweet: Rate limit exceeded''"
proof -
  let ?env = "example_env False (Inr (Some 7)) (Inr posted_123)"
  have u: "use_key ?env (world (start 48)) = (Inr False, 48)"
    by (simp add: example_env_def start_def)
  have c: "check_rate_limit ?env 48 1440 48 = (Inr (True, ''Rate limit exceeded''), 48)"
    by (simp add: example_env_def example_limiter_def)
  have h: "\<forall>m. sublist ''alice'' (get_error_with_username ?env 48 m) \<and>
               sublist m (get_error_with_username ?env 48 m)"
  proof
    fix m
    have "''@alice: '' @ m = ''@'' @ ''alice'' @ ('': '' @ m)"
      by simp
    then have a: "sublist ''alice'' (''@alice: '' @ m)"
      unfolding sublist_def by blast
    have b: "sublist m (''@alice: '' @ m)"
      by (rule sublist_append_leftI)
    have "get_error_with_username ?env 48 m = ''@alice: '' @ m"
      by (simp add: example_env_def example_error_with_username_def)
    with a b show "sublist ''alice'' (get_error_with_username ?env 48 m) \<and>
               sublist m (get_error_with_username ?env 48 m)"
      by (simp only:) 
  qed
  note t = rate_limited_returns_error_without_client [OF u c, of "''1''" "''hi''" "''alice''"]
  have v: "get_error_with_username ?env 48 (''Error replying to tweet: '' @ ''Rate limit exceeded'') =
           ''@alice: Error replying to tweet: Rate limit exceeded''"
    by (simp add: example_env_def example_error_with_username_def)
  from t have res: "fst (run ?env ''1'' ''hi'' (start 48)) =
                    Inr ''@alice: Error replying to tweet: Rate limit exceeded''"
    unfolding v by (rule conjunct1)
  from t have ev: "new_events (start 48) (snd (run ?env ''1'' ''hi'' (start 48))) =
                   [ReadUseKey, CheckRateLimit 48 1440]"
    by (elim conjE)
  from t h obtain r where
    r: "fst (run ?env ''1'' ''hi'' (start 48)) = Inr r"
    and emb: "sublist ''alice'' r" "sublist ''Rate limit exceeded'' r"
    by blast
  from r res have "r = ''@alice: Error replying to tweet: Rate limit exceeded''"
    by simp
  with emb res ev show ?thesis
    by (simp only:) 
qed

text \<open>
  C5. Whenever execution reaches the authentication provider and it returns no client
  handle, \<^verbatim>\<open>_run\<close> returns the error string that the helper builds from \<open>Failed to get
  Twitter client. Please check your authentication.\<close>; asking for the client is the last
  thing it does, and it sends no request to the platform.
\<close>

theorem missing_client_returns_error_without_request:
  assumes "rate_limit_branch env s = (Inr None, s1)"
    and "get_client env (world s1) = (Inr None, w2)"
  shows "fst (run env tweet_id text s) =
           Inr (get_error_with_username env w2
                  ''Failed to get Twitter client. Please check your authentication.'') \<and>
         filter is_request (new_events s (snd (run env tweet_id text s))) = [] \<and>
         last (new_events s (snd (run env tweet_id text s))) = GetClient"
proof -
  from rate_limit_branch_effect [OF assms(1)] obtain evs where
    t: "trace s1 = trace s @ evs" and sub: "set evs \<subseteq> {ReadUseKey, CheckRateLimit 48 1440}"
    by blast
  have r: "run env tweet_id text s =
           (Inr (get_error_with_username env w2
                   ''Failed to get Twitter client. Please check your authentication.''),
            s1\<lparr>world := w2, trace := trace s1 @ [GetClient]\<rparr>)"
    by (rule run_no_client [OF assms])
  have ev: "new_events s (snd (run env tweet_id text s)) = evs @ [GetClient]"
    by (simp add: r t new_events_def)
  have "filter is_request evs = []"
    using sub by (auto simp: filter_empty_conv)
  then have no_request: "filter is_request (new_events s (snd (run env tweet_id text s))) = []"
    using ev by simp
  have final: "last (new_events s (snd (run env tweet_id text s))) = GetClient"
    using ev by simp
  have res: "fst (run env tweet_id text s) =
             Inr (get_error_with_username env w2
                    ''Failed to get Twitter client. Please check your authentication.'')"
    by (simp add: r)
  from res no_request final show ?thesis
    by blast
qed

theorem missing_client_returns_error_without_request_witness:
  "rate_limit_branch (example_env False (Inr None) (Inr posted_123)) (start 3) =
     (Inr None, \<lparr>self = TwitterReplyTweet, world = 4,
                 trace = [ReadUseKey, CheckRateLimit 48 1440]\<rparr>) \<and>
   fst (run (example_env False (Inr None) (Inr posted_123)) ''1'' ''hi'' (start 3)) =
     Inr ''@alice: Failed to get Twitter client. Please check your authentication.'' \<and>
   filter is_request
     (new_events (start 3)
        (snd (run (example_env False (Inr None) (Inr posted_123)) ''1'' ''hi'' (start 3)))) = []"
proof -
  let ?env = "example_env False (Inr None) (Inr posted_123)"
  let ?s1 = "\<lparr>self = TwitterReplyTweet, world = 4,
              trace = [ReadUseKey, CheckRateLimit 48 1440]\<rparr> :: (nat, nat) state"
  have g: "rate_limit_branch ?env (start 3) = (Inr None, ?s1)"
    by (simp add: rate_limit_branch_def call_def example_env_def example_limiter_def start_def)
  have c: "get_client ?env (world ?s1) = (Inr None, 4)"
    by (simp add: example_env_def)
  show ?thesis
    using missing_client_returns_error_without_request [OF g c, of "''1''" "''hi''"] g
    by (simp add: example_env_def example_error_with_username_def)
qed

subsection \<open>Frame and side effects\<close>

lemma run_body_effect:
  assumes "run_body env tweet_id text s = (r, s2)"
  shows "self s2 = self s \<and>
         (\<exists>evs. trace s2 = trace s @ evs \<and> length (filter is_request evs) \<le> 1)"
proof (cases "rate_limit_branch env s")
  case (Pair g s1)
  from rate_limit_branch_effect [OF Pair] obtain evs0 where
    s1: "self s1 = self s" and t1: "trace s1 = trace s @ evs0"
    and sub: "set evs0 \<subseteq> {ReadUseKey, CheckRateLimit 48 1440}"
    by blast
  have none: "filter is_request evs0 = []"
    using sub by (auto simp: filter_empty_conv)
  show ?thesis
  proof (cases "g = Inr None")
    case True
    then have p: "post_reply env tweet_id text s1 = (r, s2)"
      using assms Pair by (simp add: run_body_def)
    from post_reply_effect [OF p] obtain evs where
      "self s2 = self s1" "trace s2 = trace s1 @ evs" "length (filter is_request evs) \<le> 1"
      by blast
    then show ?thesis
      using s1 t1 none by simp
  next
    case False
    then have "s2 = s1"
      using assms Pair by (auto simp: run_body_def split: sum.splits option.splits)
    then show ?thesis
      using s1 t1 none by simp
  qed
qed

text \<open>
  C9. For every input and every behaviour of the collaborators, \<^verbatim>\<open>_run\<close> leaves the tool
  itself as it was: \<open>name\<close>, \<open>description\<close> and \<open>args_schema\<close> are the same after the call.
  What it does to the outside is appended to the trace, and among the events of one call
  there is at most one request to the platform. There is none when the call is cut short
  by the rate limit, and none when the authentication provider returns no client.
\<close>

theorem run_leaves_tool_unchanged_one_request:
  "self (snd (run env tweet_id text s)) = self s \<and>
   trace (snd (run env tweet_id text s)) =
     trace s @ new_events s (snd (run env tweet_id text s)) \<and>
   length (filter is_request (new_events s (snd (run env tweet_id text s)))) \<le> 1 \<and>
   (use_key env (world s) = (Inr False, w1) \<and>
    check_rate_limit env 48 1440 w1 = (Inr (True, error), w2) \<longrightarrow>
      filter is_request (new_events s (snd (run env tweet_id text s))) = []) \<and>
   (rate_limit_branch env s = (Inr None, s1) \<and> get_client env (world s1) = (Inr None, w3) \<longrightarrow>
      filter is_request (new_events s (snd (run env tweet_id text s))) = [])"
proof -
  obtain r s2 where b: "run_body env tweet_id text s = (r, s2)"
    by (cases "run_body env tweet_id text s")
  then have fin: "snd (run env tweet_id text s) = s2"
    by (simp add: run_state)
  from run_body_effect [OF b] obtain evs where
    frame: "self s2 = self s" and t: "trace s2 = trace s @ evs"
    and n: "length (filter is_request evs) \<le> 1"
    by blast
  have ev: "new_events s s2 = evs"
    by (rule new_events_append [OF t])
  have limited: "filter is_request (new_events s s2) = []"
    if "use_key env (world s) = (Inr False, w1)"
      and "check_rate_limit env 48 1440 w1 = (Inr (True, error), w2)"
  proof -
    have "snd (run env tweet_id text s) =
          s\<lparr>world := w2, trace := trace s @ [ReadUseKey, CheckRateLimit 48 1440]\<rparr>"
      by (simp add: run_rate_limited [OF that])
    then show ?thesis
      unfolding fin by (simp add: new_events_def)
  qed
  have no_client: "filter is_request (new_events s s2) = []"
    if g: "rate_limit_branch env s = (Inr None, s1)"
      and c: "get_client env (world s1) = (Inr None, w3)"
  proof -
    from rate_limit_branch_effect [OF g] obtain evs0 where
      t1: "trace s1 = trace s @ evs0" and sub: "set evs0 \<subseteq> {ReadUseKey, CheckRateLimit 48 1440}"
      by blast
    have "snd (run env tweet_id text s) = s1\<lparr>world := w3, trace := trace s1 @ [GetClient]\<rparr>"
      by (simp add: run_no_client [OF g c])
    then have "new_events s s2 = evs0 @ [GetClient]"
      unfolding fin by (simp add: new_events_def t1)
    moreover have "filter is_request evs0 = []"
      using sub by (auto simp: filter_empty_conv)
    ultimately show ?thesis
      by simp
  qed
  show ?thesis
    unfolding fin using frame t n limited no_client by (simp add: ev)
qed

theorem run_leaves_tool_unchanged_one_request_witness:
  "self (snd (run (example_env False (Inr (Some 7)) (Inr posted_123)) ''1'' ''hi'' (start 48))) =
     TwitterReplyTweet \<and>
   filter is_request
     (new_events (start 48)
        (snd (run (example_env False (Inr (Some 7)) (Inr posted_123)) ''1'' ''hi'' (start 48)))) = [] \<and>
   self (snd (run (example_env True (Inr None) (Inr posted_123)) ''1'' ''hi'' (start 0))) =
     TwitterReplyTweet \<and>
   filter is_request
     (new_events (start 0)
        (snd (run (example_env True (Inr None) (Inr posted_123)) ''1'' ''hi'' (start 0)))) = []"
proof -
  let ?a = "example_env False (Inr (Some 7)) (Inr posted_123)"
  let ?b = "example_env True (Inr None) (Inr posted_123)"
  let ?s1 = "\<lparr>self = TwitterReplyTweet, world = 0, trace = [ReadUseKey]\<rparr> :: (nat, nat) state"
  have u: "use_key ?a (world (start 48)) = (Inr False, 48)"
    by (simp add: example_env_def start_def)
  have c: "check_rate_limit ?a 48 1440 48 = (Inr (True, ''Rate limit exceeded''), 48)"
    by (simp add: example_env_def example_limiter_def)
  have g: "rate_limit_branch ?b (start 0) = (Inr None, ?s1)"
    by (simp add: rate_limit_branch_def call_def example_env_def start_def)
  have n: "get_client ?b (world ?s1) = (Inr None, 0)"
    by (simp add: example_env_def)
  have s48: "self (start 48) = TwitterReplyTweet" and s0: "self (start 0) = TwitterReplyTweet"
    by (simp_all add: start_def)
  from run_leaves_tool_unchanged_one_request
    [of ?a "''1''" "''hi''" "start 48" 48 "''Rate limit exceeded''" 48] u c s48
  have a: "self (snd (run ?a ''1'' ''hi'' (start 48))) = TwitterReplyTweet \<and>
           filter is_request (new_events (start 48) (snd (run ?a ''1'' ''hi'' (start 48)))) = []"
    by (simp only:) 
  from run_leaves_tool_unchanged_one_request
    [of ?b "''1''" "''hi''" "start 0" _ _ _ ?s1 0] g n s0
  have b: "self (snd (run ?b ''1'' ''hi'' (start 0))) = TwitterReplyTweet \<and>
           filter is_request (new_events (start 0) (snd (run ?b ''1'' ''hi'' (start 0)))) = []"
    by (simp only:) 
  from a b show ?thesis
    by (simp only:)
qed

subsection \<open>The exception handler\<close>

lemma run_catches_ordinary:
  assumes "run_body env tweet_id text s = (Inl e, s2)" and "kind e = Ordinary"
  shows "run env tweet_id text s =
         (Inr (get_error_with_username env (world s2)
                 (''Error posting reply tweet: '' @ message e)), s2)"
  using assms by (simp add: run_def)


lemma post_reply_raises:
  assumes "get_client env (world s1) = (Inl e, w4) \<or>
           (get_client env (world s1) = (Inr (Some c), w2) \<and> use_key env w2 = (Inl e, w4)) \<or>
           (get_client env (world s1) = (Inr (Some c), w2) \<and> use_key env w2 = (Inr ua, w3) \<and>
            create_tweet env c text ua tweet_id w3 = (Inl e, w4)) \<or>
           (get_client env (world s1) = (Inr (Some c), w2) \<and> use_key env w2 = (Inr ua, w3) \<and>
            create_tweet env c text ua tweet_id w3 = (Inr response, w4) \<and>
            interpret_response env w4 response = Inl e)"
  shows "\<exists>s2. post_reply env tweet_id text s1 = (Inl e, s2) \<and> world s2 = w4"
  using assms by (auto simp: post_reply_def call_def)

lemma example_helper_embeds: "sublist m (example_error_with_username n m)"
  unfolding example_error_with_username_def by (rule sublist_append_leftI)

lemma embedded_message:
  assumes "\<forall>m. sublist m (f m)"
  shows "sublist x (f (pre @ x))"
proof -
  from assms have "sublist (pre @ x) (f (pre @ x))"
    by blast
  then show ?thesis
    by (rule sublist_of_embedded)
qed

lemma run_lets_system_exiting_through:
  assumes "run_body env tweet_id text s = (Inl e, s2)" and "kind e = SystemExiting"
  shows "run env tweet_id text s = (Inl e, s2)"
  using assms by (simp add: run_def)

text \<open>
  C3, as amended. Every exception of class \<^verbatim>\<open>Exception\<close> that is raised while obtaining
  the client, while evaluating the arguments of the reply-creation call, by that call or
  while interpreting the response (steps 2 to 4) is caught: \<^verbatim>\<open>_run\<close> returns the error string
  that the helper builds from \<open>Error posting reply tweet:\<close> followed by the exception's
  message, so the returned string contains the message whenever the helper's output
  contains the message it is given. Every exception raised in these steps that is not an
  instance of \<^verbatim>\<open>Exception\<close> is not caught: \<^verbatim>\<open>_run\<close> raises that very exception.
\<close>

theorem ordinary_exception_of_steps_2_to_4_is_returned_as_string:
  assumes "rate_limit_branch env s = (Inr None, s1)"
    and "get_client env (world s1) = (Inl e, w4) \<or>
         (get_client env (world s1) = (Inr (Some c), w2) \<and> use_key env w2 = (Inl e, w4)) \<or>
         (get_client env (world s1) = (Inr (Some c), w2) \<and> use_key env w2 = (Inr ua, w3) \<and>
          create_tweet env c text ua tweet_id w3 = (Inl e, w4)) \<or>
         (get_client env (world s1) = (Inr (Some c), w2) \<and> use_key env w2 = (Inr ua, w3) \<and>
          create_tweet env c text ua tweet_id w3 = (Inr response, w4) \<and>
          interpret_response env w4 response = Inl e)"
  shows "(kind e = Ordinary \<longrightarrow>
            fst (run env tweet_id text s) =
              Inr (get_error_with_username env w4 (''Error posting reply tweet: '' @ message e)) \<and>
            ((\<forall>m. sublist m (get_error_with_username env w4 m)) \<longrightarrow>
             (\<exists>r. fst (run env tweet_id text s) = Inr r \<and> sublist (message e) r))) \<and>
         (kind e = SystemExiting \<longrightarrow> fst (run env tweet_id text s) = Inl e) \<and>
         world (snd (run env tweet_id text s)) = w4"
proof -
  from post_reply_raises [OF assms(2)] obtain s2 where
    p: "post_reply env tweet_id text s1 = (Inl e, s2)" and w: "world s2 = w4"
    by blast
  have b: "run_body env tweet_id text s = (Inl e, s2)"
    using assms(1) p by (simp add: run_body_def)
  have caught:
    "fst (run env tweet_id text s) =
       Inr (get_error_with_username env w4 (''Error posting reply tweet: '' @ message e)) \<and>
     ((\<forall>m. sublist m (get_error_with_username env w4 m)) \<longrightarrow>
      (\<exists>r. fst (run env tweet_id text s) = Inr r \<and> sublist (message e) r))"
    if k: "kind e = Ordinary"
  proof -
    from run_catches_ordinary [OF b k] w
    have res: "fst (run env tweet_id text s) =
               Inr (get_error_with_username env w4 (''Error posting reply tweet: '' @ message e))"
      by simp
    have "sublist (message e)
            (get_error_with_username env w4 (''Error posting reply tweet: '' @ message e))"
      if "\<forall>m. sublist m (get_error_with_username env w4 m)"
      using that by (rule embedded_message)
    with res show ?thesis
      by blast
  qed
  have raised: "fst (run env tweet_id text s) = Inl e" if k: "kind e = SystemExiting"
    using run_lets_system_exiting_through [OF b k] by simp
  have final: "world (snd (run env tweet_id text s)) = w4"
    using b w by (simp add: run_state)
  from caught raised final show ?thesis
    by blast
qed

theorem ordinary_exception_of_steps_2_to_4_is_returned_as_string_witness:
  "fst (run (example_env True (Inr (Some 7)) (Inl (Raised Ordinary ''timeout''))) ''1'' ''hi''
          (start 0)) =
     Inr ''@alice: Error posting reply tweet: timeout'' \<and>
   sublist ''timeout'' ''@alice: Error posting reply tweet: timeout'' \<and>
   fst (run (example_env True (Inl (Raised SystemExiting ''3'')) (Inr posted_123)) ''1'' ''hi''
          (start 0)) =
     Inl (Raised SystemExiting ''3'')"
proof -
  let ?env = "example_env True (Inr (Some 7)) (Inl (Raised Ordinary ''timeout''))"
  let ?exit = "example_env True (Inl (Raised SystemExiting ''3'')) (Inr posted_123)"
  let ?s1 = "\<lparr>self = TwitterReplyTweet, world = 0, trace = [ReadUseKey]\<rparr> :: (nat, nat) state"
  have g: "rate_limit_branch ?env (start 0) = (Inr None, ?s1)"
    and gx: "rate_limit_branch ?exit (start 0) = (Inr None, ?s1)"
    by (simp_all add: rate_limit_branch_def call_def example_env_def start_def)
  have c: "get_client ?env (world ?s1) = (Inr (Some 7), 0) \<and> use_key ?env 0 = (Inr True, 0) \<and>
           create_tweet ?env 7 ''hi'' True ''1'' 0 = (Inl (Raised Ordinary ''timeout''), 0)"
    by (simp add: example_env_def)
  have cx: "get_client ?exit (world ?s1) = (Inl (Raised SystemExiting ''3''), 0)"
    by (simp add: example_env_def)
  have k: "kind (Raised Ordinary ''timeout'') = Ordinary"
    and kx: "kind (Raised SystemExiting ''3'') = SystemExiting"
    by simp_all
  have h: "\<forall>m. sublist m (get_error_with_username ?env 0 m)"
    by (simp add: example_env_def example_helper_embeds)
  have v: "get_error_with_username ?env 0
             (''Error posting reply tweet: '' @ message (Raised Ordinary ''timeout'')) =
           ''@alice: Error posting reply tweet: timeout''"
    by (simp add: example_env_def example_error_with_username_def)
  note t = ordinary_exception_of_steps_2_to_4_is_returned_as_string
    [of ?env "start 0" ?s1 "Raised Ordinary ''timeout''" 0 7 0 True 0 "''hi''" "''1''", OF g]
  from t c k have res: "fst (run ?env ''1'' ''hi'' (start 0)) =
                        Inr ''@alice: Error posting reply tweet: timeout''"
    unfolding v by blast
  from t c k h obtain r where
    "fst (run ?env ''1'' ''hi'' (start 0)) = Inr r" "sublist (message (Raised Ordinary ''timeout'')) r"
    by blast
  with res have emb: "sublist ''timeout'' ''@alice: Error posting reply tweet: timeout''"
    by simp
  note tx = ordinary_exception_of_steps_2_to_4_is_returned_as_string
    [of ?exit "start 0" ?s1 "Raised SystemExiting ''3''" 0 _ _ _ _ "''hi''" "''1''", OF gx]
  from tx cx kx have out: "fst (run ?exit ''1'' ''hi'' (start 0)) = Inl (Raised SystemExiting ''3'')"
    by blast
  from res emb out show ?thesis
    by (simp only:)
qed

text \<open>
  The claim C3 as it is written fails: an exception that is not an instance of
  \<^verbatim>\<open>Exception\<close>, here \<^verbatim>\<open>KeyboardInterrupt\<close> raised during the reply-creation call, is
  not matched by \<^verbatim>\<open>except Exception\<close> and leaves \<^verbatim>\<open>_run\<close>.
\<close>

theorem keyboard_interrupt_in_create_tweet_propagates:
  "fst (run (example_env True (Inr (Some 7)) (Inl keyboard_interrupt)) ''1'' ''hi'' (start 0)) =
     Inl keyboard_interrupt"
  by (simp add: run_def run_body_def rate_limit_branch_def post_reply_def call_def
      example_env_def start_def keyboard_interrupt_def)




subsection \<open>Interpreting the response\<close>

lemma key_present: "(k \<in> fst ` set kvs) = (map_of kvs k \<noteq> None)"
  by (simp add: map_of_eq_None_iff)

lemma interpret_response_with_id:
  assumes "map_of kvs ''data'' = Some (DDict d)" and "map_of d ''id'' = Some v"
  shows "interpret_response env w (RDict kvs) =
         Inr (''Reply posted successfully! Reply Tweet ID: '' @ py_str v)"
  using assms by (simp add: interpret_response_def key_present)

lemma interpret_response_without_id:
  assumes "map_of kvs ''data'' = None \<or>
           (map_of kvs ''data'' = Some (DDict d) \<and> map_of d ''id'' = None)"
  shows "interpret_response env w (RDict kvs) =
         Inr (get_error_with_username env w ''Failed to post reply tweet.'')"
  using assms by (auto simp: interpret_response_def key_present)

lemma interpret_response_raises_ordinary:
  assumes "interpret_response env w response = Inl e"
  shows "kind e = Ordinary"
proof -
  have c: "kind x = Ordinary" if "scalar_contains k v = Inl x" for k v x
    using that by (cases v) auto
  have g: "kind (scalar_getitem_error v) = Ordinary" for v
    by (cases v) auto
  have rc: "kind x = Ordinary" if "response_contains k r = Inl x" for k r x
    using that c by (cases r) auto
  have rg: "kind x = Ordinary" if "response_getitem r k = Inl x" for k r x
    using that g by (cases r) (auto simp: key_error_def split: option.splits)
  have dc: "kind x = Ordinary" if "data_contains k r = Inl x" for k r x
    using that c by (cases r) auto
  have dg: "kind x = Ordinary" if "data_getitem r k = Inl x" for k r x
    using that g by (cases r) (auto simp: key_error_def split: option.splits)
  show ?thesis
    using assms rc rg dc dg
    unfolding interpret_response_def
    by (auto split: sum.splits if_splits)
qed

lemma run_body_posted:
  assumes "rate_limit_branch env s = (Inr None, s1)"
    and "get_client env (world s1) = (Inr (Some c), w2)"
    and "use_key env w2 = (Inr ua, w3)"
    and "create_tweet env c text ua tweet_id w3 = (Inr response, w4)"
  shows "run_body env tweet_id text s =
         (interpret_response env w4 response,
          s1\<lparr>world := w4,
             trace := trace s1 @ [GetClient, ReadUseKey, CreateTweet c text ua tweet_id]\<rparr>)"
  using assms by (simp add: run_body_def post_reply_def call_def)

text \<open>
  C4, as amended. When the platform answers with a mapping whose \<open>data\<close> entry, if there is
  one, is itself a mapping: if it holds an identifier at \<open>data.id\<close>, \<^verbatim>\<open>_run\<close> returns
  exactly \<open>Reply posted successfully! Reply Tweet ID:\<close> followed by \<^verbatim>\<open>str\<close> of the
  identifier; if there is no \<open>data\<close> entry, or no \<open>id\<close> in it, \<^verbatim>\<open>_run\<close> returns the generic
  failure string. For every response whatsoever the result is one of three strings: that
  success string, the generic failure string, or the error string of an exception that
  the test on the response raised.
\<close>

theorem reply_identifier_decides_the_result:
  assumes "rate_limit_branch env s = (Inr None, s1)"
    and "get_client env (world s1) = (Inr (Some c), w2)"
    and "use_key env w2 = (Inr ua, w3)"
    and "create_tweet env c text ua tweet_id w3 = (Inr response, w4)"
  shows "(response = RDict kvs \<and> map_of kvs ''data'' = Some (DDict d) \<and> map_of d ''id'' = Some v \<longrightarrow>
            fst (run env tweet_id text s) =
              Inr (''Reply posted successfully! Reply Tweet ID: '' @ py_str v)) \<and>
         (response = RDict kvs \<and>
          (map_of kvs ''data'' = None \<or>
           (map_of kvs ''data'' = Some (DDict d) \<and> map_of d ''id'' = None)) \<longrightarrow>
            fst (run env tweet_id text s) =
              Inr (get_error_with_username env w4 ''Failed to post reply tweet.'')) \<and>
         ((\<exists>reply_id. fst (run env tweet_id text s) =
              Inr (''Reply posted successfully! Reply Tweet ID: '' @ py_str reply_id)) \<or>
          fst (run env tweet_id text s) =
            Inr (get_error_with_username env w4 ''Failed to post reply tweet.'') \<or>
          (\<exists>e. kind e = Ordinary \<and>
               fst (run env tweet_id text s) =
                 Inr (get_error_with_username env w4
                        (''Error posting reply tweet: '' @ message e))))"
proof -
  note b = run_body_posted [OF assms]
  have ok: "fst (run env tweet_id text s) = Inr r" if "interpret_response env w4 response = Inr r" for r
    using b that by (simp add: run_def)
  have first: "fst (run env tweet_id text s) =
                 Inr (''Reply posted successfully! Reply Tweet ID: '' @ py_str v)"
    if "response = RDict kvs" "map_of kvs ''data'' = Some (DDict d)" "map_of d ''id'' = Some v"
  proof -
    have "interpret_response env w4 response =
          Inr (''Reply posted successfully! Reply Tweet ID: '' @ py_str v)"
      unfolding that(1) by (rule interpret_response_with_id [OF that(2,3)])
    then show ?thesis
      by (rule ok)
  qed
  have second: "fst (run env tweet_id text s) =
                  Inr (get_error_with_username env w4 ''Failed to post reply tweet.'')"
    if "response = RDict kvs"
      "map_of kvs ''data'' = None \<or> (map_of kvs ''data'' = Some (DDict d) \<and> map_of d ''id'' = None)"
  proof -
    have "interpret_response env w4 response =
          Inr (get_error_with_username env w4 ''Failed to post reply tweet.'')"
      unfolding that(1) by (rule interpret_response_without_id [OF that(2)])
    then show ?thesis
      by (rule ok)
  qed
  have third:
    "(\<exists>reply_id. fst (run env tweet_id text s) =
        Inr (''Reply posted successfully! Reply Tweet ID: '' @ py_str reply_id)) \<or>
     fst (run env tweet_id text s) =
       Inr (get_error_with_username env w4 ''Failed to post reply tweet.'') \<or>
     (\<exists>e. kind e = Ordinary \<and>
          fst (run env tweet_id text s) =
            Inr (get_error_with_username env w4 (''Error posting reply tweet: '' @ message e)))"
  proof (cases "interpret_response env w4 response")
    case (Inl e)
    then have k: "kind e = Ordinary"
      by (rule interpret_response_raises_ordinary)
    have "fst (run env tweet_id text s) =
          Inr (get_error_with_username env w4 (''Error posting reply tweet: '' @ message e))"
      using b Inl k by (simp add: run_def)
    with k show ?thesis
      by blast
  next
    case (Inr r)
    then have shape: "(\<exists>reply_id. r = ''Reply posted successfully! Reply Tweet ID: '' @ py_str reply_id) \<or>
                      r = get_error_with_username env w4 ''Failed to post reply tweet.''"
      unfolding interpret_response_def
      by (auto split: sum.splits if_splits)
    from ok [OF Inr] shape show ?thesis
      by auto
  qed
  from first second third show ?thesis
    by blast
qed

theorem reply_identifier_decides_the_result_witness:
  "fst (run (example_env True (Inr (Some 7)) (Inr posted_123)) ''1'' ''hi'' (start 0)) =
     Inr ''Reply posted successfully! Reply Tweet ID: 123'' \<and>
   fst (run (example_env True (Inr (Some 7)) (Inr (RDict []))) ''1'' ''hi'' (start 0)) =
     Inr ''@alice: Failed to post reply tweet.''"
proof -
  let ?a = "example_env True (Inr (Some 7)) (Inr posted_123)"
  let ?b = "example_env True (Inr (Some 7)) (Inr (RDict []))"
  let ?s1 = "\<lparr>self = TwitterReplyTweet, world = 0, trace = [ReadUseKey]\<rparr> :: (nat, nat) state"
  have ga: "rate_limit_branch ?a (start 0) = (Inr None, ?s1)"
    and gb: "rate_limit_branch ?b (start 0) = (Inr None, ?s1)"
    by (simp_all add: rate_limit_branch_def call_def example_env_def start_def)
  have ca: "get_client ?a (world ?s1) = (Inr (Some 7), 0)"
    and cb: "get_client ?b (world ?s1) = (Inr (Some 7), 0)"
    by (simp_all add: example_env_def)
  have ua: "use_key ?a 0 = (Inr True, 0)" and ub: "use_key ?b 0 = (Inr True, 0)"
    by (simp_all add: example_env_def)
  have pa: "create_tweet ?a 7 ''hi'' True ''1'' 0 = (Inr posted_123, 0)"
    and pb: "create_tweet ?b 7 ''hi'' True ''1'' 0 = (Inr (RDict []), 0)"
    by (simp_all add: example_env_def)
  have shape: "posted_123 = RDict [(''data'', DDict [(''id'', PStr ''123''), (''text'', PStr ''hi'')])] \<and>
               map_of [(''data'', DDict [(''id'', PStr ''123''), (''text'', PStr ''hi'')])] ''data'' =
                 Some (DDict [(''id'', PStr ''123''), (''text'', PStr ''hi'')]) \<and>
               map_of [(''id'', PStr ''123''), (''text'', PStr ''hi'')] ''id'' = Some (PStr ''123'')"
    by (simp add: posted_123_def)
  from reply_identifier_decides_the_result [OF ga ca ua pa,
      of "[(''data'', DDict [(''id'', PStr ''123''), (''text'', PStr ''hi'')])]"
         "[(''id'', PStr ''123''), (''text'', PStr ''hi'')]" "PStr ''123''"] shape
  have a: "fst (run ?a ''1'' ''hi'' (start 0)) = Inr ''Reply posted successfully! Reply Tweet ID: 123''"
    by simp
  have none: "RDict [] = RDict [] \<and> map_of ([] :: (string \<times> data_value) list) ''data'' = None"
    by simp
  from reply_identifier_decides_the_result [OF gb cb ub pb, of "[]"] none
  have "fst (run ?b ''1'' ''hi'' (start 0)) =
        Inr (get_error_with_username ?b 0 ''Failed to post reply tweet.'')"
    by blast
  then have b: "fst (run ?b ''1'' ''hi'' (start 0)) = Inr ''@alice: Failed to post reply tweet.''"
    by (simp add: example_env_def example_error_with_username_def)
  from a b show ?thesis
    by (simp only:)
qed

text \<open>
  The claim C4 as it is written fails: the response \<^verbatim>\<open>{"data": None}\<close> holds no identifier
  at \<open>data.id\<close>, yet \<^verbatim>\<open>_run\<close> does not return the generic failure string. The test
  \<^verbatim>\<open>"id" in response["data"]\<close> raises \<^verbatim>\<open>TypeError\<close>, and the handler returns the error
  string of that exception.
\<close>

theorem null_data_is_not_the_generic_failure:
  "fst (run (example_env True (Inr (Some 7)) (Inr null_data)) ''1'' ''hi'' (start 0)) =
     Inr (''@alice: Error posting reply tweet: argument of type '' @ quoted ''NoneType'' @
          '' is not iterable'') \<and>
   fst (run (example_env True (Inr (Some 7)) (Inr null_data)) ''1'' ''hi'' (start 0)) \<noteq>
     Inr (get_error_with_username (example_env True (Inr (Some 7)) (Inr null_data)) 0
            ''Failed to post reply tweet.'')"
  by (simp add: run_def run_body_def rate_limit_branch_def post_reply_def call_def
      interpret_response_def example_env_def example_error_with_username_def start_def
      null_data_def quoted_def)

subsection \<open>Validation of the input\<close>

lemma input_too_long:
  assumes "280 < length t"
  shows "TwitterReplyTweetInput tweet_id_arg (Some t) =
         Inl (ValidationError
                ((case tweet_id_arg of None \<Rightarrow> [Missing ''tweet_id''] | Some _ \<Rightarrow> []) @
                 [StringTooLong ''text'' 280]))"
  using assms by (cases tweet_id_arg) (simp_all add: TwitterReplyTweetInput_def)

lemma input_accepted:
  assumes "length t \<le> 280"
  shows "TwitterReplyTweetInput (Some i) (Some t) = Inr \<lparr>input_tweet_id = i, input_text = t\<rparr>"
  using assms by (simp add: TwitterReplyTweetInput_def)

lemma input_without_tweet_id:
  "\<exists>errs. TwitterReplyTweetInput None text_arg = Inl (ValidationError errs) \<and>
          Missing ''tweet_id'' \<in> set errs"
  by (cases text_arg) (simp_all add: TwitterReplyTweetInput_def)

text \<open>
  C6. For every text of more than 280 characters, constructing the input fails with a
  \<^verbatim>\<open>ValidationError\<close> that reports the text as too long, whatever the other argument is;
  the invocation stops there, with the state as it was: no collaborator is used, so
  \<^verbatim>\<open>_run\<close> is not executed on such an input.
\<close>

theorem text_longer_than_280_is_rejected_before_run:
  assumes "280 < length t"
  shows "\<exists>errs. TwitterReplyTweetInput tweet_id_arg (Some t) = Inl (ValidationError errs) \<and>
               StringTooLong ''text'' 280 \<in> set errs \<and>
               invoke env tweet_id_arg (Some t) s = (Inl (ValidationError errs), s)"
  using input_too_long [OF assms, of tweet_id_arg]
  by (simp add: invoke_def)

theorem text_longer_than_280_is_rejected_before_run_witness:
  "280 < length (replicate 281 (CHR ''a'')) \<and>
   (\<exists>errs. TwitterReplyTweetInput (Some ''1'') (Some (replicate 281 (CHR ''a''))) =
             Inl (ValidationError errs) \<and>
           StringTooLong ''text'' 280 \<in> set errs \<and>
           invoke (example_env True (Inr (Some 7)) (Inr posted_123)) (Some ''1'')
             (Some (replicate 281 (CHR ''a''))) (start 0) =
             (Inl (ValidationError errs), start 0))"
proof -
  have h: "280 < length (replicate 281 (CHR ''a''))"
    by simp
  from text_longer_than_280_is_rejected_before_run
    [OF h, of "Some ''1''" "example_env True (Inr (Some 7)) (Inr posted_123)" "start 0"] h
  show ?thesis
    by (simp only:) 
qed

text \<open>
  C8, as amended. The identifier of the post has to be present and nothing more. An input
  without \<^verbatim>\<open>tweet_id\<close> is rejected by the schema, and its invocation ends with that
  \<^verbatim>\<open>ValidationError\<close> and the state as it was, so the reply operation does not run. Every
  string, the empty one included, is accepted together with a text of at most 280
  characters, and its invocation is \<^verbatim>\<open>_run\<close> on that identifier and text. \<^verbatim>\<open>_run\<close> does not
  look at the identifier either: once it has a client it calls the reply-creation
  operation with the identifier as it is, and its outcome and the world it leaves are
  those of that call.
\<close>

theorem tweet_id_only_has_to_be_present:
  "(\<exists>errs. TwitterReplyTweetInput None text_arg = Inl (ValidationError errs) \<and>
           Missing ''tweet_id'' \<in> set errs \<and>
           invoke env None text_arg s = (Inl (ValidationError errs), s)) \<and>
   (length t \<le> 280 \<longrightarrow>
      TwitterReplyTweetInput (Some i) (Some t) = Inr \<lparr>input_tweet_id = i, input_text = t\<rparr> \<and>
      invoke env (Some i) (Some t) s = (Inr (fst (run env i t s)), snd (run env i t s))) \<and>
   (rate_limit_branch env s = (Inr None, s1) \<and>
    get_client env (world s1) = (Inr (Some c), w2) \<and>
    use_key env w2 = (Inr ua, w3) \<and>
    create_tweet env c t ua i w3 = (r, w4) \<longrightarrow>
      CreateTweet c t ua i \<in> set (new_events s (snd (run env i t s))) \<and>
      run env i t s =
        handle_exception env
          (case r of Inl e \<Rightarrow> Inl e | Inr response \<Rightarrow> interpret_response env w4 response,
           s1\<lparr>world := w4,
              trace := trace s1 @ [GetClient, ReadUseKey, CreateTweet c t ua i]\<rparr>))"
proof -
  have missing: "\<exists>errs. TwitterReplyTweetInput None text_arg = Inl (ValidationError errs) \<and>
                       Missing ''tweet_id'' \<in> set errs \<and>
                       invoke env None text_arg s = (Inl (ValidationError errs), s)"
  proof -
    from input_without_tweet_id [of text_arg] obtain errs where
      v: "TwitterReplyTweetInput None text_arg = Inl (ValidationError errs)"
      and m: "Missing ''tweet_id'' \<in> set errs"
      by blast
    have "invoke env None text_arg s = (Inl (ValidationError errs), s)"
      by (simp add: invoke_def v)
    with v m show ?thesis
      by blast
  qed
  have accepted:
    "TwitterReplyTweetInput (Some i) (Some t) = Inr \<lparr>input_tweet_id = i, input_text = t\<rparr> \<and>
     invoke env (Some i) (Some t) s = (Inr (fst (run env i t s)), snd (run env i t s))"
    if "length t \<le> 280"
    using input_accepted [OF that, of i]
    by (simp add: invoke_def split: prod.splits)
  have sent:
    "CreateTweet c t ua i \<in> set (new_events s (snd (run env i t s))) \<and>
     run env i t s =
       handle_exception env
         (case r of Inl e \<Rightarrow> Inl e | Inr response \<Rightarrow> interpret_response env w4 response,
          s1\<lparr>world := w4, trace := trace s1 @ [GetClient, ReadUseKey, CreateTweet c t ua i]\<rparr>)"
    if g: "rate_limit_branch env s = (Inr None, s1)"
      and c: "get_client env (world s1) = (Inr (Some c), w2)"
      and u: "use_key env w2 = (Inr ua, w3)"
      and p: "create_tweet env c t ua i w3 = (r, w4)"
  proof -
    from rate_limit_branch_effect [OF g] obtain evs where t1: "trace s1 = trace s @ evs"
      by blast
    let ?s4 = "s1\<lparr>world := w4, trace := trace s1 @ [GetClient, ReadUseKey, CreateTweet c t ua i]\<rparr>"
    have b: "run_body env i t s =
             (case r of Inl e \<Rightarrow> Inl e | Inr response \<Rightarrow> interpret_response env w4 response,
              ?s4)"
      using g c u p by (cases r) (simp_all add: run_body_def post_reply_def call_def)
    then have "snd (run env i t s) = ?s4"
      by (simp add: run_state)
    then have "new_events s (snd (run env i t s)) =
               evs @ [GetClient, ReadUseKey, CreateTweet c t ua i]"
      by (simp add: new_events_def t1)
    then have "CreateTweet c t ua i \<in> set (new_events s (snd (run env i t s)))"
      by simp
    moreover have "run env i t s =
                   handle_exception env
                     (case r of Inl e \<Rightarrow> Inl e
                      | Inr response \<Rightarrow> interpret_response env w4 response, ?s4)"
      using b by (simp add: run_handles_body)
    ultimately show ?thesis
      by blast
  qed
  from missing accepted sent show ?thesis
    by blast
qed

theorem tweet_id_only_has_to_be_present_witness:
  "length ''hi'' \<le> 280 \<and>
   TwitterReplyTweetInput (Some '''') (Some ''hi'') =
     Inr \<lparr>input_tweet_id = '''', input_text = ''hi''\<rparr> \<and>
   invoke (example_env True (Inr (Some 7)) (Inr posted_123)) (Some '''') (Some ''hi'') (start 0) =
     (Inr (Inr ''Reply posted successfully! Reply Tweet ID: 123''),
      \<lparr>self = TwitterReplyTweet, world = 0,
       trace = [ReadUseKey, GetClient, ReadUseKey, CreateTweet 7 ''hi'' True '''']\<rparr>) \<and>
   CreateTweet 7 ''hi'' True '''' \<in> set
     (new_events (start 0)
        (snd (run (example_env True (Inr (Some 7)) (Inr posted_123)) '''' ''hi'' (start 0)))) \<and>
   invoke (example_env True (Inr (Some 7)) (Inr posted_123)) None (Some ''hi'') (start 0) =
     (Inl (ValidationError [Missing ''tweet_id'']), start 0)"
proof -
  let ?env = "example_env True (Inr (Some 7)) (Inr posted_123)"
  let ?s1 = "\<lparr>self = TwitterReplyTweet, world = 0, trace = [ReadUseKey]\<rparr> :: (nat, nat) state"
  let ?s4 = "\<lparr>self = TwitterReplyTweet, world = 0,
              trace = [ReadUseKey, GetClient, ReadUseKey, CreateTweet 7 ''hi'' True '''']\<rparr>
             :: (nat, nat) state"
  have l: "length ''hi'' \<le> 280"
    by simp
  have g: "rate_limit_branch ?env (start 0) = (Inr None, ?s1) \<and>
           get_client ?env (world ?s1) = (Inr (Some 7), 0) \<and>
           use_key ?env 0 = (Inr True, 0) \<and>
           create_tweet ?env 7 ''hi'' True '''' 0 = (Inr posted_123, 0)"
    by (simp add: rate_limit_branch_def call_def example_env_def start_def)
  note t = tweet_id_only_has_to_be_present
    [of "Some ''hi''" ?env "start 0" "''hi''" "''''" ?s1 7 0 True 0 "Inr posted_123" 0]
  from t l have a: "TwitterReplyTweetInput (Some '''') (Some ''hi'') =
                    Inr \<lparr>input_tweet_id = '''', input_text = ''hi''\<rparr>"
    by blast
  from t l have inv: "invoke ?env (Some '''') (Some ''hi'') (start 0) =
                      (Inr (fst (run ?env '''' ''hi'' (start 0))), snd (run ?env '''' ''hi'' (start 0)))"
    by blast
  from t g have sent: "CreateTweet 7 ''hi'' True '''' \<in> set
                         (new_events (start 0) (snd (run ?env '''' ''hi'' (start 0))))"
    by blast
  from t g have "run ?env '''' ''hi'' (start 0) =
                 handle_exception ?env
                   (case Inr posted_123 of Inl e \<Rightarrow> Inl e
                    | Inr response \<Rightarrow> interpret_response ?env 0 response,
                    ?s1\<lparr>world := 0,
                       trace := trace ?s1 @ [GetClient, ReadUseKey, CreateTweet 7 ''hi'' True '''']\<rparr>)"
    by blast
  then have r: "run ?env '''' ''hi'' (start 0) =
                (Inr ''Reply posted successfully! Reply Tweet ID: 123'', ?s4)"
    by (simp add: handle_exception_def interpret_response_def posted_123_def)
  from inv r have b: "invoke ?env (Some '''') (Some ''hi'') (start 0) =
                      (Inr (Inr ''Reply posted successfully! Reply Tweet ID: 123''), ?s4)"
    by simp
  from t obtain errs where
    v: "TwitterReplyTweetInput None (Some ''hi'') = Inl (ValidationError errs)"
    and i: "invoke ?env None (Some ''hi'') (start 0) = (Inl (ValidationError errs), start 0)"
    by blast
  from v have "errs = [Missing ''tweet_id'']"
    by (simp add: TwitterReplyTweetInput_def)
  with i have m: "invoke ?env None (Some ''hi'') (start 0) =
                  (Inl (ValidationError [Missing ''tweet_id'']), start 0)"
    by simp
  from l a b sent m show ?thesis
    by (simp only:)
qed

text \<open>
  The claim C8 as it is written fails: the empty string is accepted as \<^verbatim>\<open>tweet_id\<close>, and
  the reply operation runs with it.
\<close>

theorem empty_tweet_id_is_accepted:
  "TwitterReplyTweetInput (Some '''') (Some ''hi'') =
     Inr \<lparr>input_tweet_id = '''', input_text = ''hi''\<rparr> \<and>
   run (example_env True (Inr (Some 7)) (Inr posted_123)) '''' ''hi'' (start 0) =
     (Inr ''Reply posted successfully! Reply Tweet ID: 123'',
      \<lparr>self = TwitterReplyTweet, world = 0,
       trace = [ReadUseKey, GetClient, ReadUseKey, CreateTweet 7 ''hi'' True '''']\<rparr>)"
  by (simp add: TwitterReplyTweetInput_def run_def run_body_def rate_limit_branch_def
      post_reply_def call_def interpret_response_def example_env_def start_def posted_123_def)

end
